theory Spec2Isabelle
  imports Complex_Main "HOL-Library.Multiset"
begin

section \<open>Python values, dictionaries and exceptions\<close>

text \<open>
  The diagnostic results are Python dictionaries with string keys and values of any
  kind. The value kinds that the probes produce are modelled: \<open>None\<close>, booleans,
  integers, floats (a finite float is the rational it denotes, which is what Python's
  comparison of a float with an integer compares), strings and lists. Strings are
  byte strings; the non-ASCII characters of the source's literals are their UTF-8 bytes.
\<close>

datatype pyval =
    VNone
  | VBool bool
  | VInt int
  | VFloat rat
  | VStr string
  | VList "pyval list"

type_synonym outcome = "string \<rightharpoonup> pyval"
type_synonym results = "string \<rightharpoonup> outcome"

text \<open>Python's truth value of an object, as \<open>not x\<close> and \<open>if x\<close> test it.\<close>

fun truthy :: "pyval \<Rightarrow> bool" where
  "truthy VNone = False"
| "truthy (VBool b) = b"
| "truthy (VInt i) = (i \<noteq> 0)"
| "truthy (VFloat q) = (q \<noteq> 0)"
| "truthy (VStr s) = (s \<noteq> [])"
| "truthy (VList xs) = (xs \<noteq> [])"

text \<open>
  An exception is its class and the text \<open>str(e)\<close>. \<open>KeyboardInterrupt\<close> and
  \<open>SystemExit\<close> derive from \<open>BaseException\<close> only, so that a clause
  \<open>except Exception\<close> does not catch them.
\<close>

datatype exn_class =
  KeyError | TypeError | IndexError | OtherException | KeyboardInterrupt | SystemExit

datatype py_exn = Raise exn_class string

fun is_Exception :: "exn_class \<Rightarrow> bool" where
  "is_Exception KeyboardInterrupt = False"
| "is_Exception SystemExit = False"
| "is_Exception _ = True"

text \<open>\<open>d.get(k, default)\<close> on an outcome, and \<open>results.get(k, {})\<close>.\<close>

definition py_get :: "outcome \<Rightarrow> string \<Rightarrow> pyval \<Rightarrow> pyval" where
  "py_get d k dflt = (case d k of None \<Rightarrow> dflt | Some v \<Rightarrow> v)"

definition results_get :: "results \<Rightarrow> string \<Rightarrow> outcome" where
  "results_get r k = (case r k of None \<Rightarrow> Map.empty | Some d \<Rightarrow> d)"

text \<open>\<open>results[k]\<close>: a missing key raises \<open>KeyError\<close>, whose text is the key's repr.\<close>

definition py_getitem :: "results \<Rightarrow> string \<Rightarrow> py_exn + outcome" where
  "py_getitem r k =
     (case r k of None \<Rightarrow> Inl (Raise KeyError ([CHR 0x27] @ k @ [CHR 0x27])) | Some d \<Rightarrow> Inr d)"

section \<open>The five categories and the outcome set\<close>

datatype category = DNS | SSL | HTTP | Ping | GeoIP

fun key :: "category \<Rightarrow> string" where
  "key DNS = ''dns''"
| "key SSL = ''ssl''"
| "key HTTP = ''http''"
| "key Ping = ''ping''"
| "key GeoIP = ''geoip''"

text \<open>
  The dictionary \<open>raw_results\<close> that \<open>run_diagnostics\<close> builds from the five
  probe outcomes (agent.py, lines 26 to 32).
\<close>

definition outcome_set :: "(category \<Rightarrow> outcome) \<Rightarrow> results" where
  "outcome_set os =
     [''dns'' \<mapsto> os DNS, ''ssl'' \<mapsto> os SSL, ''http'' \<mapsto> os HTTP,
      ''ping'' \<mapsto> os Ping, ''geoip'' \<mapsto> os GeoIP]"

text \<open>The flag \<open>ok\<close> of an outcome, read by its truth value; an absent flag is false.\<close>

definition ok_flag :: "outcome \<Rightarrow> bool" where
  "ok_flag d = (case d ''ok'' of None \<Rightarrow> False | Some v \<Rightarrow> truthy v)"

section \<open>The scorer (agent.py)\<close>

definition calculate_health_score :: "results \<Rightarrow> py_exn + int" where
  "calculate_health_score raw_results =
     (let score = 100 in
      (case py_getitem raw_results ''dns'' of Inl e \<Rightarrow> Inl e | Inr dns \<Rightarrow>
      (let score = (if \<not> truthy (py_get dns ''ok'' (VBool False)) then score - 25 else score) in
      (case py_getitem raw_results ''http'' of Inl e \<Rightarrow> Inl e | Inr http \<Rightarrow>
      (let score = (if \<not> truthy (py_get http ''ok'' (VBool False)) then score - 25 else score) in
      (case py_getitem raw_results ''ssl'' of Inl e \<Rightarrow> Inl e | Inr ssl \<Rightarrow>
      (let score = (if \<not> truthy (py_get ssl ''ok'' (VBool False)) then score - 20 else score) in
      (case py_getitem raw_results ''ping'' of Inl e \<Rightarrow> Inl e | Inr ping \<Rightarrow>
      (let score = (if \<not> truthy (py_get ping ''ok'' (VBool False)) then score - 15 else score) in
      (case py_getitem raw_results ''geoip'' of Inl e \<Rightarrow> Inl e | Inr geoip \<Rightarrow>
      (let score = (if \<not> truthy (py_get geoip ''ok'' (VBool False)) then score - 15 else score) in
      Inr (max 0 score))))))))))))"

text \<open>The penalties as the specification lists them, and the failing categories.\<close>

fun penalty :: "category \<Rightarrow> int" where
  "penalty DNS = 25"
| "penalty HTTP = 25"
| "penalty SSL = 20"
| "penalty Ping = 15"
| "penalty GeoIP = 15"

definition failing :: "(category \<Rightarrow> outcome) \<Rightarrow> category set" where
  "failing os = {c. \<not> ok_flag (os c)}"

section \<open>String operations of Python used by the source\<close>

definition startswith :: "string \<Rightarrow> string \<Rightarrow> bool" where
  "startswith s p = (take (length p) s = p)"

text \<open>
  \<open>partition_at sep s\<close> finds the first occurrence of \<open>sep\<close> in \<open>s\<close> and gives the
  text before it and the text after it. \<open>split1 sep s\<close> is \<open>s.split(sep, 1)\<close> for a
  non-empty separator: one split at most, so a list of one or two strings.
\<close>

fun partition_at :: "string \<Rightarrow> string \<Rightarrow> (string \<times> string) option" where
  "partition_at sep [] = None"
| "partition_at sep (c # cs) =
     (if take (length sep) (c # cs) = sep then Some ([], drop (length sep) (c # cs))
      else (case partition_at sep cs of None \<Rightarrow> None | Some (a, b) \<Rightarrow> Some (c # a, b)))"

definition split1 :: "string \<Rightarrow> string \<Rightarrow> string list" where
  "split1 sep s = (case partition_at sep s of None \<Rightarrow> [s] | Some (a, b) \<Rightarrow> [a, b])"

text \<open>\<open>xs[i]\<close> for a non-negative index: out of range raises \<open>IndexError\<close>.\<close>

definition py_index :: "'a list \<Rightarrow> nat \<Rightarrow> py_exn + 'a" where
  "py_index xs i =
     (if i < length xs then Inr (xs ! i) else Inl (Raise IndexError ''list index out of range''))"

text \<open>\<open>str(n)\<close> of an integer, in decimal, and \<open>sep.join(xs)\<close>.\<close>

definition digit_char :: "nat \<Rightarrow> char" where
  "digit_char d = ''0123456789'' ! d"

fun str_nat :: "nat \<Rightarrow> string" where
  "str_nat n = (if n < 10 then [digit_char n] else str_nat (n div 10) @ [digit_char (n mod 10)])"

declare str_nat.simps [simp del]

definition str_int :: "int \<Rightarrow> string" where
  "str_int i = (if i < 0 then CHR ''-'' # str_nat (nat (- i)) else str_nat (nat i))"

fun join :: "string \<Rightarrow> string list \<Rightarrow> string" where
  "join sep [] = []"
| "join sep [x] = x"
| "join sep (x # y # ys) = x @ sep @ join sep (y # ys)"

text \<open>
  \<open>s.strip()\<close>: leading and trailing whitespace removed. The whitespace characters
  of a Python string are the code points U+0009 to U+000D, U+001C to U+0020, U+0085,
  U+00A0, U+1680, U+2000 to U+200A, U+2028, U+2029, U+202F, U+205F and U+3000; each
  is listed here as its UTF-8 bytes.
\<close>

definition whitespace_codes :: "string list" where
  "whitespace_codes =
     [[CHR 0x09], [CHR 0x0A], [CHR 0x0B], [CHR 0x0C], [CHR 0x0D],
      [CHR 0x1C], [CHR 0x1D], [CHR 0x1E], [CHR 0x1F], [CHR 0x20],
      [CHR 0xC2, CHR 0x85], [CHR 0xC2, CHR 0xA0], [CHR 0xE1, CHR 0x9A, CHR 0x80],
      [CHR 0xE2, CHR 0x80, CHR 0x80], [CHR 0xE2, CHR 0x80, CHR 0x81],
      [CHR 0xE2, CHR 0x80, CHR 0x82], [CHR 0xE2, CHR 0x80, CHR 0x83],
      [CHR 0xE2, CHR 0x80, CHR 0x84], [CHR 0xE2, CHR 0x80, CHR 0x85],
      [CHR 0xE2, CHR 0x80, CHR 0x86], [CHR 0xE2, CHR 0x80, CHR 0x87],
      [CHR 0xE2, CHR 0x80, CHR 0x88], [CHR 0xE2, CHR 0x80, CHR 0x89],
      [CHR 0xE2, CHR 0x80, CHR 0x8A], [CHR 0xE2, CHR 0x80, CHR 0xA8],
      [CHR 0xE2, CHR 0x80, CHR 0xA9], [CHR 0xE2, CHR 0x80, CHR 0xAF],
      [CHR 0xE2, CHR 0x81, CHR 0x9F], [CHR 0xE3, CHR 0x80, CHR 0x80]]"

text \<open>
  \<open>strip_leading codes s\<close> removes from the front of \<open>s\<close>, again and again, any of
  the given byte sequences that \<open>s\<close> starts with. The trailing whitespace is the
  leading whitespace of the reversed string, with the byte sequences reversed.
\<close>

function strip_leading :: "string list \<Rightarrow> string \<Rightarrow> string" where
  "strip_leading codes s =
     (case List.find (\<lambda>w. w \<noteq> [] \<and> startswith s w) codes of
        None \<Rightarrow> s
      | Some w \<Rightarrow> strip_leading codes (drop (length w) s))"
  by pat_completeness auto
termination
proof (relation "measure (\<lambda>(codes, s). length s)")
  show "wf (measure (\<lambda>(codes, s). length s))" by simp
next
  fix codes :: "string list" and s w :: string
  assume "List.find (\<lambda>w. w \<noteq> [] \<and> startswith s w) codes = Some w"
  then have "w \<noteq> []" and "take (length w) s = w"
    by (auto simp: find_Some_iff startswith_def)
  then have "s \<noteq> []" by auto
  with \<open>w \<noteq> []\<close> show "((codes, drop (length w) s), (codes, s)) \<in> measure (\<lambda>(codes, s). length s)"
    by simp
qed

declare strip_leading.simps [simp del]

definition strip :: "string \<Rightarrow> string" where
  "strip s = rev (strip_leading (map rev whitespace_codes) (rev (strip_leading whitespace_codes s)))"

section \<open>The probes (diagnostics/dns_check.py, ping_check.py, http_check.py)\<close>

text \<open>
  \<open>try: body except Exception as e: handler(str(e))\<close>. The body has been run to its
  result; an exception of a class under \<open>Exception\<close> goes to the handler, any other
  one propagates.
\<close>

definition try_except :: "py_exn + 'a \<Rightarrow> (string \<Rightarrow> py_exn + 'a) \<Rightarrow> py_exn + 'a" where
  "try_except body handler =
     (case body of
        Inr v \<Rightarrow> Inr v
      | Inl (Raise cls msg) \<Rightarrow> if is_Exception cls then handler msg else Inl (Raise cls msg))"

definition normalize_target :: "string \<Rightarrow> py_exn + string" where
  "normalize_target target =
     (case (if startswith target ''http://'' \<or> startswith target ''https://''
            then py_index (split1 ''//'' target) 1 else Inr target) of
        Inl e \<Rightarrow> Inl e
      | Inr target' \<Rightarrow> py_index (split1 ''/'' target') 0)"

text \<open>
  The network calls are parameters of the probes: each is a function from its
  arguments to what the call does, a returned value or a raised exception.
  \<open>gethostbyname\<close> is \<open>socket.gethostbyname\<close>.
\<close>

definition dns_resolution :: "(string \<Rightarrow> py_exn + string) \<Rightarrow> string \<Rightarrow> py_exn + outcome" where
  "dns_resolution gethostbyname target =
     (case normalize_target target of
        Inl e \<Rightarrow> Inl e
      | Inr host \<Rightarrow>
          try_except
            (case gethostbyname host of
               Inl e \<Rightarrow> Inl e
             | Inr ip \<Rightarrow> Inr [''ok'' \<mapsto> VBool True, ''host'' \<mapsto> VStr host, ''ip'' \<mapsto> VStr ip])
            (\<lambda>msg. Inr [''ok'' \<mapsto> VBool False, ''host'' \<mapsto> VStr host, ''error'' \<mapsto> VStr msg]))"

text \<open>
  \<open>ping\<close> is \<open>ping3.ping(host, timeout)\<close>. What it returns is a Python value: the
  round-trip time in seconds, a float, when the echo reply came; \<open>None\<close> when no
  reply came within the timeout; \<open>False\<close> when the library met an error, such as a
  host name that does not resolve.

  \<open>round_ms\<close> is the expression \<open>round(rtt * 1000, 2)\<close>, evaluated inside the
  \<open>try\<close>. On a boolean or an integer it is integer arithmetic, and \<open>round\<close> returns
  the integer. On a float it is floating-point arithmetic, which the parameter
  \<open>round_float\<close> stands for. A string or a list can be repeated 1000 times but not
  rounded, and \<open>None\<close> cannot be multiplied.
\<close>

definition round_ms :: "(rat \<Rightarrow> py_exn + pyval) \<Rightarrow> pyval \<Rightarrow> py_exn + pyval" where
  "round_ms round_float rtt =
     (case rtt of
        VNone \<Rightarrow>
          Inl (Raise TypeError (''unsupported operand type(s) for *: '' @ [CHR 0x27] @ ''NoneType''
                 @ [CHR 0x27] @ '' and '' @ [CHR 0x27] @ ''int'' @ [CHR 0x27]))
      | VBool b \<Rightarrow> Inr (VInt ((if b then 1 else 0) * 1000))
      | VInt i \<Rightarrow> Inr (VInt (i * 1000))
      | VFloat q \<Rightarrow> round_float q
      | VStr _ \<Rightarrow>
          Inl (Raise TypeError (''type str doesn'' @ [CHR 0x27] @ ''t define __round__ method''))
      | VList _ \<Rightarrow>
          Inl (Raise TypeError (''type list doesn'' @ [CHR 0x27] @ ''t define __round__ method'')))"

definition ping_host ::
  "(string \<Rightarrow> nat \<Rightarrow> py_exn + pyval) \<Rightarrow> (rat \<Rightarrow> py_exn + pyval) \<Rightarrow> string \<Rightarrow> py_exn + outcome"
where
  "ping_host ping round_float target =
     (case normalize_target target of
        Inl e \<Rightarrow> Inl e
      | Inr host \<Rightarrow>
          try_except
            (case ping host 2 of
               Inl e \<Rightarrow> Inl e
             | Inr rtt \<Rightarrow>
                 if rtt = VNone then
                   Inr [''ok'' \<mapsto> VBool False, ''host'' \<mapsto> VStr host, ''latency_ms'' \<mapsto> VNone,
                        ''error'' \<mapsto> VStr ''timeout'']
                 else
                   (case round_ms round_float rtt of
                      Inl e \<Rightarrow> Inl e
                    | Inr ms \<Rightarrow>
                        Inr [''ok'' \<mapsto> VBool True, ''host'' \<mapsto> VStr host, ''latency_ms'' \<mapsto> ms]))
            (\<lambda>msg. Inr [''ok'' \<mapsto> VBool False, ''host'' \<mapsto> VStr host, ''latency_ms'' \<mapsto> VNone,
                         ''error'' \<mapsto> VStr msg]))"

definition prepare_url :: "string \<Rightarrow> string" where
  "prepare_url url =
     (if startswith url ''http://'' \<or> startswith url ''https://'' then url
      else ''https://'' @ url)"

text \<open>
  What \<open>httpx\<close> answers: the status code, the final URL and the status codes of the
  redirects followed. \<open>client_get\<close> is the request made with the configured client;
  \<open>elapsed_ms\<close> is the time the clock measured around it, in milliseconds.
\<close>

record response =
  status_code :: int
  url :: string
  history :: "int list"

definition http_check :: "(string \<Rightarrow> py_exn + response) \<Rightarrow> int \<Rightarrow> string \<Rightarrow> py_exn + outcome" where
  "http_check client_get elapsed_ms target =
     (let u = prepare_url target in
      try_except
        (case client_get u of
           Inl e \<Rightarrow> Inl e
         | Inr r \<Rightarrow>
             Inr [''ok'' \<mapsto> VBool (status_code r < 400),
                  ''url'' \<mapsto> VStr u,
                  ''status_code'' \<mapsto> VInt (status_code r),
                  ''response_time_ms'' \<mapsto> VInt elapsed_ms,
                  ''final_url'' \<mapsto> VStr (url r),
                  ''redirect_chain'' \<mapsto> VList (map VInt (history r))])
        (\<lambda>msg. Inr [''ok'' \<mapsto> VBool False, ''url'' \<mapsto> VStr u, ''error'' \<mapsto> VStr msg]))"

text \<open>
  A call whose failures are all of classes under \<open>Exception\<close> (resolution failure,
  connection error and timeout are such: \<open>OSError\<close> and the errors of the HTTP and
  ping libraries).
\<close>

definition raises_only_Exception :: "py_exn + 'a \<Rightarrow> bool" where
  "raises_only_Exception res =
     (case res of Inr _ \<Rightarrow> True | Inl (Raise cls _) \<Rightarrow> is_Exception cls)"

section \<open>The rule-based analyzer (diagnostics/portia_check.py)\<close>

record issue =
  category :: string
  severity :: string
  issue :: string
  impact :: string
  technical_details :: pyval

record recommendation =
  priority :: string
  action :: string
  details :: string
  estimated_fix_time :: string

text \<open>
  The description of a predicted issue is an f-string that formats a value of the
  outcome. It is kept as its parts, literal text and formatted values, in order.
\<close>

datatype fpart = Lit string | Fmt pyval

record predicted_issue =
  type :: string
  description :: "fpart list"
  recommended_action :: string
  timeline :: string

record insights =
  root_cause_analysis :: "issue list"
  intelligent_recommendations :: "recommendation list"
  risk_assessment :: string
  performance_score :: int
  predicted_issues :: "predicted_issue list"
  ai_summary :: string

text \<open>
  \<open>v < n\<close> and \<open>v > n\<close> for an integer literal \<open>n\<close>: numbers (booleans among them)
  are compared by value, any other operand raises \<open>TypeError\<close>.
\<close>

fun num_of :: "pyval \<Rightarrow> rat option" where
  "num_of (VBool b) = Some (if b then 1 else 0)"
| "num_of (VInt i) = Some (of_int i)"
| "num_of (VFloat q) = Some q"
| "num_of _ = None"

fun type_name :: "pyval \<Rightarrow> string" where
  "type_name VNone = ''NoneType''"
| "type_name (VBool _) = ''bool''"
| "type_name (VInt _) = ''int''"
| "type_name (VFloat _) = ''float''"
| "type_name (VStr _) = ''str''"
| "type_name (VList _) = ''list''"

definition not_supported :: "string \<Rightarrow> pyval \<Rightarrow> py_exn" where
  "not_supported opr v =
     Raise TypeError ([CHR 0x27] @ opr @ [CHR 0x27] @ '' not supported between instances of ''
       @ [CHR 0x27] @ type_name v @ [CHR 0x27] @ '' and '' @ [CHR 0x27] @ ''int'' @ [CHR 0x27])"

definition py_lt :: "pyval \<Rightarrow> int \<Rightarrow> py_exn + bool" where
  "py_lt v n = (case num_of v of None \<Rightarrow> Inl (not_supported ''<'' v) | Some q \<Rightarrow> Inr (q < of_int n))"

definition py_gt :: "pyval \<Rightarrow> int \<Rightarrow> py_exn + bool" where
  "py_gt v n = (case num_of v of None \<Rightarrow> Inl (not_supported ''>'' v) | Some q \<Rightarrow> Inr (q > of_int n))"

definition initial_insights :: insights where
  "initial_insights =
     \<lparr>root_cause_analysis = [], intelligent_recommendations = [], risk_assessment = ''low'',
      performance_score = 0, predicted_issues = [], ai_summary = []\<rparr>"

text \<open>The issue and the recommendation that each failing category appends.\<close>

definition dns_issue :: "outcome \<Rightarrow> issue" where
  "dns_issue dns_result =
     \<lparr>category = ''DNS'', severity = ''high'', issue = ''DNS resolution failure'',
      impact = ''Complete connectivity loss'',
      technical_details = py_get dns_result ''error'' (VStr ''Unknown DNS error'')\<rparr>"

definition dns_recommendation :: recommendation where
  "dns_recommendation =
     \<lparr>priority = ''critical'', action = ''Check DNS configuration'',
      details = ''Verify DNS server settings and domain registration status'',
      estimated_fix_time = ''5-15 minutes''\<rparr>"

definition ssl_issue :: "outcome \<Rightarrow> issue" where
  "ssl_issue ssl_result =
     \<lparr>category = ''SSL'', severity = ''medium'', issue = ''SSL certificate problem'',
      impact = ''Security warnings for users'',
      technical_details = py_get ssl_result ''error'' (VStr ''SSL certificate validation failed'')\<rparr>"

definition ssl_recommendation :: recommendation where
  "ssl_recommendation =
     \<lparr>priority = ''high'', action = ''Renew SSL certificate'',
      details = ''Certificate may be expired or improperly configured'',
      estimated_fix_time = ''10-30 minutes''\<rparr>"

definition http_issue :: "outcome \<Rightarrow> issue" where
  "http_issue http_result =
     \<lparr>category = ''HTTP'', severity = ''high'', issue = ''HTTP connectivity failure'',
      impact = ''Website inaccessible to users'',
      technical_details = py_get http_result ''error'' (VStr ''HTTP connection failed'')\<rparr>"

definition http_recommendation :: recommendation where
  "http_recommendation =
     \<lparr>priority = ''critical'', action = ''Check web server status'',
      details = ''Verify server is running and accepting connections'',
      estimated_fix_time = ''5-20 minutes''\<rparr>"

definition ping_issue :: "outcome \<Rightarrow> issue" where
  "ping_issue ping_result =
     \<lparr>category = ''Network'', severity = ''medium'', issue = ''ICMP ping failure'',
      impact = ''Network connectivity issues'',
      technical_details = py_get ping_result ''error'' (VStr ''Ping timeout or blocked'')\<rparr>"

definition ping_recommendation :: recommendation where
  "ping_recommendation =
     \<lparr>priority = ''medium'', action = ''Check network connectivity'',
      details = ''ICMP may be blocked by firewall or network issues'',
      estimated_fix_time = ''10-30 minutes''\<rparr>"

definition ssl_expiration :: "pyval \<Rightarrow> predicted_issue" where
  "ssl_expiration days_left =
     \<lparr>type = ''ssl_expiration'',
      description = [Lit ''SSL certificate expires in '', Fmt days_left, Lit '' days''],
      recommended_action = ''Schedule certificate renewal'',
      timeline = ''within 2 weeks''\<rparr>"

definition slow_response :: "pyval \<Rightarrow> predicted_issue" where
  "slow_response response_time =
     \<lparr>type = ''performance'',
      description = [Lit ''Slow response time: '', Fmt response_time, Lit ''ms''],
      recommended_action = ''Optimize server performance or consider CDN'',
      timeline = ''ongoing monitoring recommended''\<rparr>"

definition high_latency :: "pyval \<Rightarrow> predicted_issue" where
  "high_latency latency =
     \<lparr>type = ''latency'',
      description = [Lit ''High latency: '', Fmt latency, Lit ''ms''],
      recommended_action = ''Investigate network path or consider closer servers'',
      timeline = ''ongoing monitoring recommended''\<rparr>"

text \<open>
  The five blocks of \<open>_generate_fallback_insights\<close>, one per category, each a
  function from the insights so far to the insights after the block. The blocks
  that compare a field with a number can raise \<open>TypeError\<close>.
\<close>

definition analyze_dns :: "results \<Rightarrow> insights \<Rightarrow> insights" where
  "analyze_dns diagnostic_results ins =
     (let dns_result = results_get diagnostic_results ''dns'' in
      if \<not> truthy (py_get dns_result ''ok'' VNone) then
        ins\<lparr>root_cause_analysis := root_cause_analysis ins @ [dns_issue dns_result],
            intelligent_recommendations := intelligent_recommendations ins @ [dns_recommendation],
            risk_assessment := ''high''\<rparr>
      else ins\<lparr>performance_score := performance_score ins + 25\<rparr>)"

definition analyze_ssl :: "results \<Rightarrow> insights \<Rightarrow> py_exn + insights" where
  "analyze_ssl diagnostic_results ins =
     (let ssl_result = results_get diagnostic_results ''ssl'' in
      if \<not> truthy (py_get ssl_result ''ok'' VNone) then
        Inr (ins\<lparr>root_cause_analysis := root_cause_analysis ins @ [ssl_issue ssl_result],
                 intelligent_recommendations := intelligent_recommendations ins @ [ssl_recommendation],
                 risk_assessment :=
                   (if risk_assessment ins = ''low'' then ''medium'' else risk_assessment ins)\<rparr>)
      else
        (let ins' = ins\<lparr>performance_score := performance_score ins + 25\<rparr>;
             days_left = py_get ssl_result ''days_left'' VNone in
         if \<not> truthy days_left then Inr ins'
         else (case py_lt days_left 30 of
                 Inl e \<Rightarrow> Inl e
               | Inr below \<Rightarrow>
                   Inr (if below
                        then ins'\<lparr>predicted_issues := predicted_issues ins' @ [ssl_expiration days_left]\<rparr>
                        else ins'))))"

definition analyze_http :: "results \<Rightarrow> insights \<Rightarrow> py_exn + insights" where
  "analyze_http diagnostic_results ins =
     (let http_result = results_get diagnostic_results ''http'' in
      if \<not> truthy (py_get http_result ''ok'' VNone) then
        Inr (ins\<lparr>root_cause_analysis := root_cause_analysis ins @ [http_issue http_result],
                 intelligent_recommendations := intelligent_recommendations ins @ [http_recommendation],
                 risk_assessment := ''high''\<rparr>)
      else
        (let ins' = ins\<lparr>performance_score := performance_score ins + 25\<rparr>;
             response_time = py_get http_result ''response_time_ms'' (VInt 0) in
         (case py_gt response_time 3000 of
            Inl e \<Rightarrow> Inl e
          | Inr slow \<Rightarrow>
              Inr (if slow
                   then ins'\<lparr>predicted_issues := predicted_issues ins' @ [slow_response response_time]\<rparr>
                   else ins'))))"

definition analyze_ping :: "results \<Rightarrow> insights \<Rightarrow> py_exn + insights" where
  "analyze_ping diagnostic_results ins =
     (let ping_result = results_get diagnostic_results ''ping'' in
      if \<not> truthy (py_get ping_result ''ok'' VNone) then
        Inr (ins\<lparr>root_cause_analysis := root_cause_analysis ins @ [ping_issue ping_result],
                 intelligent_recommendations := intelligent_recommendations ins @ [ping_recommendation]\<rparr>)
      else
        (let ins' = ins\<lparr>performance_score := performance_score ins + 15\<rparr>;
             latency = py_get ping_result ''latency_ms'' (VInt 0) in
         (case py_gt latency 200 of
            Inl e \<Rightarrow> Inl e
          | Inr high \<Rightarrow>
              Inr (if high
                   then ins'\<lparr>predicted_issues := predicted_issues ins' @ [high_latency latency]\<rparr>
                   else ins'))))"

definition analyze_geoip :: "results \<Rightarrow> insights \<Rightarrow> insights" where
  "analyze_geoip diagnostic_results ins =
     (let geoip_result = results_get diagnostic_results ''geoip'' in
      if truthy (py_get geoip_result ''ok'' VNone)
      then ins\<lparr>performance_score := performance_score ins + 10\<rparr>
      else ins)"

fun analyze :: "category \<Rightarrow> results \<Rightarrow> insights \<Rightarrow> py_exn + insights" where
  "analyze DNS r ins = Inr (analyze_dns r ins)"
| "analyze SSL r ins = analyze_ssl r ins"
| "analyze HTTP r ins = analyze_http r ins"
| "analyze Ping r ins = analyze_ping r ins"
| "analyze GeoIP r ins = Inr (analyze_geoip r ins)"

text \<open>The blocks of the given categories run one after the other; an exception ends the run.\<close>

fun analyze_in_order :: "category list \<Rightarrow> results \<Rightarrow> insights \<Rightarrow> py_exn + insights" where
  "analyze_in_order [] r ins = Inr ins"
| "analyze_in_order (c # cs) r ins =
     (case analyze c r ins of Inl e \<Rightarrow> Inl e | Inr ins' \<Rightarrow> analyze_in_order cs r ins')"

definition check_order :: "category list" where
  "check_order = [DNS, SSL, HTTP, Ping, GeoIP]"

text \<open>The prefix of the summary, as the bytes of the source's literal.\<close>

definition ai_prefix :: string where
  "ai_prefix = [CHR 0xC3, CHR 0xB0, CHR 0xC5, CHR 0xB8, CHR 0xC2, CHR 0xA4, CHR 0xE2, CHR 0x80, CHR 0x93]"

definition generate_ai_summary :: "string \<Rightarrow> insights \<Rightarrow> insights" where
  "generate_ai_summary target ins =
     (if root_cause_analysis ins \<noteq> [] then
        (let primary_issues = map category (root_cause_analysis ins) in
         ins\<lparr>ai_summary :=
               ai_prefix @ '' AI Analysis: Detected '' @ str_int (int (length primary_issues))
               @ '' primary issue(s) affecting '' @ target @ ''. ''
               @ ''Main concerns: '' @ join '', '' primary_issues @ ''. ''
               @ ''Risk level: '' @ risk_assessment ins @ ''. ''
               @ ''Performance score: '' @ str_int (performance_score ins) @ ''/100.''\<rparr>)
      else
        ins\<lparr>ai_summary :=
              ai_prefix @ '' AI Analysis: '' @ target
              @ '' appears healthy with a performance score of ''
              @ str_int (performance_score ins) @ ''/100. ''
              @ ''No critical issues detected.''\<rparr>)"

text \<open>
  \<open>_generate_fallback_insights\<close>: the five blocks in the order of the source, DNS, SSL,
  HTTP, ping and GeoIP, then the summary.
\<close>

definition generate_fallback_insights :: "results \<Rightarrow> string \<Rightarrow> py_exn + insights" where
  "generate_fallback_insights diagnostic_results target =
     (case analyze_in_order check_order diagnostic_results initial_insights of
        Inl e \<Rightarrow> Inl e
      | Inr ins \<Rightarrow> Inr (generate_ai_summary target ins))"

text \<open>
  The client of the external service. \<open>settings.portia_api_key\<close> is the client's
  \<open>api_key\<close>, \<open>None\<close> when not configured. The module's global client instance is the
  first argument of \<open>get_ai_insights\<close>.
\<close>

record PortiaAIClient =
  api_key :: "string option"
  base_url :: string
  timeout :: nat

definition is_available :: "PortiaAIClient \<Rightarrow> bool" where
  "is_available self = (case api_key self of None \<Rightarrow> False | Some k \<Rightarrow> strip k \<noteq> [])"

definition generate_ai_insights :: "PortiaAIClient \<Rightarrow> results \<Rightarrow> string \<Rightarrow> py_exn + insights" where
  "generate_ai_insights self diagnostic_results target =
     (if \<not> is_available self then generate_fallback_insights diagnostic_results target
      else generate_fallback_insights diagnostic_results target)"

definition get_ai_insights :: "PortiaAIClient \<Rightarrow> results \<Rightarrow> string \<Rightarrow> py_exn + insights" where
  "get_ai_insights portia_client diagnostic_results target =
     generate_ai_insights portia_client diagnostic_results target"


section \<open>Summary and fix suggestions (agent.py)\<close>

definition check_mark :: string where
  "check_mark = [CHR 0xE2, CHR 0x9C, CHR 0x85]"

definition warning_sign :: string where
  "warning_sign = [CHR 0xE2, CHR 0x9A, CHR 0xA0, CHR 0xEF, CHR 0xB8, CHR 0x8F]"

definition robot_face :: string where
  "robot_face = [CHR 0xF0, CHR 0x9F, CHR 0xA4, CHR 0x96]"

text \<open>
  One check of \<open>_generate_summary_and_fixes\<close>: when the outcome's flag is not true,
  the issue text and the fixes are appended to the two lists.
\<close>

definition check_result ::
  "outcome \<Rightarrow> string \<Rightarrow> string list \<Rightarrow> string list \<times> string list \<Rightarrow> string list \<times> string list"
where
  "check_result res issue_text new_fixes acc =
     (if \<not> truthy (py_get res ''ok'' (VBool False))
      then (fst acc @ [issue_text], snd acc @ new_fixes)
      else acc)"

definition ai_fix :: "recommendation \<Rightarrow> string" where
  "ai_fix rec =
     (let fix = robot_face @ '' '' @ action rec @ '': '' @ details rec in
      if estimated_fix_time rec \<noteq> []
      then fix @ '' (Est. time: '' @ estimated_fix_time rec @ '')''
      else fix)"

definition passed_summary :: "string \<Rightarrow> string" where
  "passed_summary domain =
     check_mark @ '' All diagnostics passed for '' @ domain
     @ ''. The target appears to be healthy and reachable.''"

definition found_summary :: "string list \<Rightarrow> string \<Rightarrow> string" where
  "found_summary issues domain =
     warning_sign @ '' Found '' @ str_int (int (length issues)) @ '' issue(s) with '' @ domain
     @ '': '' @ join '', '' issues"

text \<open>
  \<open>ai_insights\<close> is \<open>None\<close> or the insights dictionary, which has its six keys and
  so is true as a condition. The recommendations are those of the record, each with
  its four fields.
\<close>

definition generate_summary_and_fixes ::
  "results \<Rightarrow> string \<Rightarrow> insights option \<Rightarrow> py_exn + (string \<times> string list)"
where
  "generate_summary_and_fixes raw_results domain ai_insights =
     (case py_getitem raw_results ''dns'' of Inl e \<Rightarrow> Inl e | Inr dns \<Rightarrow>
     (let acc = check_result dns ''DNS resolution failed''
                  [''Check if the domain name is correct and exists'',
                   ''Try using a different DNS server (8.8.8.8 or 1.1.1.1)''] ([], []) in
     (case py_getitem raw_results ''http'' of Inl e \<Rightarrow> Inl e | Inr http \<Rightarrow>
     (let acc = check_result http ''HTTP connection failed''
                  [''Verify the website is running and accessible'',
                   ''Check if there are any firewall or network restrictions''] acc in
     (case py_getitem raw_results ''ssl'' of Inl e \<Rightarrow> Inl e | Inr ssl \<Rightarrow>
     (let acc = check_result ssl ''SSL certificate issues''
                  [''Check SSL certificate validity and expiration'',
                   ''Ensure proper SSL configuration on the server''] acc in
     (case py_getitem raw_results ''ping'' of Inl e \<Rightarrow> Inl e | Inr ping \<Rightarrow>
     (let acc = check_result ping ''Ping connectivity failed''
                  [''Check network connectivity to the target'',
                   ''Verify if ICMP traffic is allowed''] acc in
     (case py_getitem raw_results ''geoip'' of Inl e \<Rightarrow> Inl e | Inr geoip \<Rightarrow>
     (let acc = check_result geoip ''GeoIP lookup failed''
                  [''This may indicate DNS or connectivity issues''] acc;
          issues = fst acc;
          fixes = snd acc in
      (case ai_insights of
         Some ins \<Rightarrow>
           (let fixes = fixes @ map ai_fix (intelligent_recommendations ins);
                summary = (if ai_summary ins \<noteq> [] then ai_summary ins
                           else if issues = [] then passed_summary domain
                           else found_summary issues domain)
            in Inr (summary, fixes))
       | None \<Rightarrow>
           Inr (if issues = [] then passed_summary domain else found_summary issues domain,
                fixes))))))))))))"

section \<open>Notions of the specification\<close>

text \<open>
  A category has failed in the results given to the analyzer when its outcome's flag
  \<open>ok\<close> is not true; a category absent from the results counts as failed, as the
  analyzer reads it through \<open>get\<close>.
\<close>

definition failed :: "results \<Rightarrow> category \<Rightarrow> bool" where
  "failed r c = (\<not> ok_flag (results_get r (key c)))"

text \<open>
  The fields that the analyzer compares with a number are numbers: the days left of a
  successful SSL outcome, unless absent or otherwise false, the response time of a
  successful HTTP outcome and the latency of a successful ping outcome, unless absent.
\<close>

definition comparable_fields :: "results \<Rightarrow> bool" where
  "comparable_fields r =
     ((failed r SSL \<or> \<not> truthy (py_get (results_get r ''ssl'') ''days_left'' VNone)
         \<or> num_of (py_get (results_get r ''ssl'') ''days_left'' VNone) \<noteq> None)
      \<and> (failed r HTTP \<or> num_of (py_get (results_get r ''http'') ''response_time_ms'' (VInt 0)) \<noteq> None)
      \<and> (failed r Ping \<or> num_of (py_get (results_get r ''ping'') ''latency_ms'' (VInt 0)) \<noteq> None))"

text \<open>The order of the risk levels: low below medium below high.\<close>

definition risk_rank :: "string \<Rightarrow> nat" where
  "risk_rank s = (if s = ''high'' then 2 else if s = ''medium'' then 1 else 0)"

text \<open>
  What a failed category appends to the issues and to the recommendations: one
  issue and one recommendation for DNS, SSL, HTTP and ping, nothing for GeoIP.
\<close>

fun issues_of :: "results \<Rightarrow> category \<Rightarrow> issue list" where
  "issues_of r DNS = [dns_issue (results_get r ''dns'')]"
| "issues_of r SSL = [ssl_issue (results_get r ''ssl'')]"
| "issues_of r HTTP = [http_issue (results_get r ''http'')]"
| "issues_of r Ping = [ping_issue (results_get r ''ping'')]"
| "issues_of r GeoIP = []"

fun recommendations_of :: "category \<Rightarrow> recommendation list" where
  "recommendations_of DNS = [dns_recommendation]"
| "recommendations_of SSL = [ssl_recommendation]"
| "recommendations_of HTTP = [http_recommendation]"
| "recommendations_of Ping = [ping_recommendation]"
| "recommendations_of GeoIP = []"


section \<open>Example inputs\<close>

definition ok_outcome :: outcome where
  "ok_outcome = [''ok'' \<mapsto> VBool True]"

definition failed_outcome :: "string \<Rightarrow> outcome" where
  "failed_outcome msg = [''ok'' \<mapsto> VBool False, ''error'' \<mapsto> VStr msg]"

text \<open>DNS and HTTP have failed, the other three categories have succeeded.\<close>

definition dns_http_down :: "category \<Rightarrow> outcome" where
  "dns_http_down c =
     (if c = DNS then failed_outcome ''Name or service not known''
      else if c = HTTP then failed_outcome ''connection refused''
      else ok_outcome)"

text \<open>
  A ping that meets an error: the library reports it by returning \<open>False\<close>.
\<close>

definition error_reply :: "string \<Rightarrow> nat \<Rightarrow> py_exn + pyval" where
  "error_reply host secs = Inr (VBool False)"

text \<open>Outcomes with the fields that the probes fill in.\<close>

definition http_ok :: "int \<Rightarrow> int \<Rightarrow> outcome" where
  "http_ok status ms = [''ok'' \<mapsto> VBool True, ''status_code'' \<mapsto> VInt status, ''response_time_ms'' \<mapsto> VInt ms]"

definition ping_ok :: "rat \<Rightarrow> outcome" where
  "ping_ok ms = [''ok'' \<mapsto> VBool True, ''latency_ms'' \<mapsto> VFloat ms]"

definition ssl_ok :: "int \<Rightarrow> outcome" where
  "ssl_ok days = [''ok'' \<mapsto> VBool True, ''days_left'' \<mapsto> VInt days]"

text \<open>SSL and HTTP have failed, the other three categories have succeeded.\<close>

definition ssl_http_down :: "category \<Rightarrow> outcome" where
  "ssl_http_down c =
     (if c = SSL then failed_outcome ''expired''
      else if c = HTTP then failed_outcome ''connection refused''
      else if c = Ping then ping_ok 40
      else ok_outcome)"

text \<open>Only the GeoIP lookup has failed.\<close>

definition geoip_down :: "category \<Rightarrow> outcome" where
  "geoip_down c =
     (if c = GeoIP then failed_outcome ''no record''
      else if c = SSL then ssl_ok 90
      else if c = HTTP then http_ok 200 150
      else if c = Ping then ping_ok 40
      else ok_outcome)"

text \<open>Only the SSL check has failed.\<close>

definition ssl_down :: "category \<Rightarrow> outcome" where
  "ssl_down c =
     (if c = SSL then failed_outcome ''expired''
      else if c = HTTP then http_ok 200 150
      else if c = Ping then ping_ok 40
      else ok_outcome)"

text \<open>Every check has succeeded; the certificate has the given number of days left.\<close>

definition all_ok :: "int \<Rightarrow> category \<Rightarrow> outcome" where
  "all_ok days c =
     (if c = SSL then ssl_ok days
      else if c = HTTP then http_ok 200 150
      else if c = Ping then ping_ok 40
      else ok_outcome)"

definition configured_client :: PortiaAIClient where
  "configured_client = \<lparr>api_key = Some ''pk-live-1'', base_url = ''https://api.portia.ai/v1'', timeout = 10\<rparr>"

definition unconfigured_client :: PortiaAIClient where
  "unconfigured_client = \<lparr>api_key = None, base_url = ''https://api.portia.ai/v1'', timeout = 10\<rparr>"

text \<open>The risk, the issues' categories and the types of the predicted issues of a result.\<close>

definition risk_of :: "py_exn + insights \<Rightarrow> py_exn + string" where
  "risk_of res = map_sum id risk_assessment res"

definition predicted_types :: "py_exn + insights \<Rightarrow> py_exn + string list" where
  "predicted_types res = map_sum id (\<lambda>ins. map type (predicted_issues ins)) res"

section \<open>Properties of the scorer\<close>

lemma get_ok_False: "truthy (py_get d ''ok'' (VBool False)) = ok_flag d"
  by (simp add: py_get_def ok_flag_def split: option.splits)

lemma get_ok_None: "truthy (py_get d ''ok'' VNone) = ok_flag d"
  by (simp add: py_get_def ok_flag_def split: option.splits)

lemma category_UNIV: "(UNIV :: category set) = {DNS, HTTP, SSL, Ping, GeoIP}"
proof -
  have "c \<in> {DNS, HTTP, SSL, Ping, GeoIP}" for c :: category
    by (cases c) simp_all
  then show ?thesis by blast
qed

lemma failing_as_list:
  "failing os = set (filter (\<lambda>c. \<not> ok_flag (os c)) [DNS, HTTP, SSL, Ping, GeoIP])"
proof -
  have "set [DNS, HTTP, SSL, Ping, GeoIP] = (UNIV :: category set)"
    by (simp only: category_UNIV list.set)
  then have "set (filter (\<lambda>c. \<not> ok_flag (os c)) [DNS, HTTP, SSL, Ping, GeoIP])
      = {c \<in> UNIV. \<not> ok_flag (os c)}"
    by (simp only: set_filter)
  then show ?thesis by (simp add: failing_def)
qed

lemma sum_penalty_failing:
  "sum penalty (failing os) =
     (if ok_flag (os DNS) then 0 else 25) + (if ok_flag (os HTTP) then 0 else 25)
     + (if ok_flag (os SSL) then 0 else 20) + (if ok_flag (os Ping) then 0 else 15)
     + (if ok_flag (os GeoIP) then 0 else 15)"
proof -
  let ?xs = "filter (\<lambda>c. \<not> ok_flag (os c)) [DNS, HTTP, SSL, Ping, GeoIP]"
  have "distinct ?xs" by simp
  then have "sum penalty (set ?xs) = sum_list (map penalty ?xs)"
    by (simp only: sum_list_distinct_conv_sum_set)
  also have "\<dots> = (if ok_flag (os DNS) then 0 else 25) + (if ok_flag (os HTTP) then 0 else 25)
     + (if ok_flag (os SSL) then 0 else 20) + (if ok_flag (os Ping) then 0 else 15)
     + (if ok_flag (os GeoIP) then 0 else 15)"
    by simp
  finally show ?thesis by (simp only: failing_as_list)
qed

lemma score_of_outcome_set:
  "calculate_health_score (outcome_set os) =
     Inr (max 0 (100 - ((if ok_flag (os DNS) then 0 else 25) + (if ok_flag (os HTTP) then 0 else 25)
     + (if ok_flag (os SSL) then 0 else 20) + (if ok_flag (os Ping) then 0 else 15)
     + (if ok_flag (os GeoIP) then 0 else 15))))"
  by (simp add: calculate_health_score_def outcome_set_def py_getitem_def get_ok_False)

lemma failing_dns_http_down: "failing dns_http_down = {DNS, HTTP}"
  by (auto simp: failing_as_list dns_http_down_def ok_flag_def ok_outcome_def failed_outcome_def)

text \<open>
  Claim C1. For every outcome set over the five categories, whichever subset \<open>F\<close> of
  them has a failing outcome, the health score is 100 minus the sum of the penalties
  of the categories in \<open>F\<close> (DNS 25, HTTP 25, SSL/TLS 20, Ping 15, GeoIP 15), clamped
  below at 0; when exactly DNS and HTTP fail the score is 50.
\<close>

theorem health_score_penalties:
  "(failing os = F \<longrightarrow>
      calculate_health_score (outcome_set os) = Inr (max 0 (100 - sum penalty F)))
   \<and> (failing os = {DNS, HTTP} \<longrightarrow> calculate_health_score (outcome_set os) = Inr 50)"
proof -
  have gen: "calculate_health_score (outcome_set os) = Inr (max 0 (100 - sum penalty (failing os)))"
    by (simp only: score_of_outcome_set sum_penalty_failing)
  have "sum penalty {DNS, HTTP} = 50" by simp
  with gen show ?thesis by auto
qed

theorem health_score_penalties_witness:
  "failing dns_http_down = {DNS, HTTP}
   \<and> calculate_health_score (outcome_set dns_http_down) = Inr (max 0 (100 - sum penalty {DNS, HTTP}))
   \<and> calculate_health_score (outcome_set dns_http_down) = Inr 50"
  using health_score_penalties [of dns_http_down "{DNS, HTTP}"] failing_dns_http_down
  by simp


section \<open>Properties of the probes\<close>

lemma partition_at_found: "sep \<noteq> [] \<Longrightarrow> partition_at sep (pre @ sep @ rest) \<noteq> None"
proof (induction pre)
  case Nil
  then show ?case by (cases sep) simp_all
next
  case (Cons c pre)
  then show ?case by (auto split: option.splits)
qed

lemma startswith_append: "startswith s p \<Longrightarrow> \<exists>rest. s = p @ rest"
  unfolding startswith_def by (metis append_take_drop_id)

lemma split1_length: "length (split1 sep s) = 1 \<or> length (split1 sep s) = 2"
  by (simp add: split1_def split: option.splits prod.splits)

lemma split_slashes_http: "startswith target ''http://'' \<Longrightarrow> length (split1 ''//'' target) = 2"
proof -
  assume "startswith target ''http://''"
  then obtain rest where "target = ''http:'' @ ''//'' @ rest"
    using startswith_append by fastforce
  then have "partition_at ''//'' target \<noteq> None"
    using partition_at_found [of "''//''" "''http:''" rest] by simp
  then show ?thesis by (auto simp: split1_def split: option.splits)
qed

lemma split_slashes_https: "startswith target ''https://'' \<Longrightarrow> length (split1 ''//'' target) = 2"
proof -
  assume "startswith target ''https://''"
  then obtain rest where "target = ''https:'' @ ''//'' @ rest"
    using startswith_append by fastforce
  then have "partition_at ''//'' target \<noteq> None"
    using partition_at_found [of "''//''" "''https:''" rest] by simp
  then show ?thesis by (auto simp: split1_def split: option.splits)
qed

text \<open>Neither index of \<open>normalize_target\<close> is ever out of range.\<close>

lemma normalize_target_returns: "\<exists>host. normalize_target target = Inr host"
proof -
  have first: "\<exists>h. py_index (split1 ''/'' t) 0 = Inr h" for t
    using split1_length [of "''/''" t] by (auto simp: py_index_def)
  show ?thesis
  proof (cases "startswith target ''http://'' \<or> startswith target ''https://''")
    case True
    then have "length (split1 ''//'' target) = 2"
      using split_slashes_http split_slashes_https by blast
    then have "\<exists>t. py_index (split1 ''//'' target) 1 = Inr t"
      by (simp add: py_index_def)
    with True first show ?thesis
      by (auto simp: normalize_target_def)
  next
    case False
    with first show ?thesis by (auto simp: normalize_target_def)
  qed
qed

lemma try_except_caught:
  "is_Exception cls \<Longrightarrow> try_except (Inl (Raise cls msg)) handler = handler msg"
  by (simp add: try_except_def)

lemma try_except_value: "try_except (Inr v) handler = Inr v"
  by (simp add: try_except_def)

lemma dns_resolution_outcome:
  assumes net: "raises_only_Exception (gethostbyname host)"
    and host: "normalize_target target = Inr host"
  shows "dns_resolution gethostbyname target =
           Inr (case gethostbyname host of
                  Inr ip \<Rightarrow> [''ok'' \<mapsto> VBool True, ''host'' \<mapsto> VStr host, ''ip'' \<mapsto> VStr ip]
                | Inl (Raise cls msg) \<Rightarrow>
                    [''ok'' \<mapsto> VBool False, ''host'' \<mapsto> VStr host, ''error'' \<mapsto> VStr msg])"
proof (cases "gethostbyname host")
  case (Inl e)
  obtain cls msg where e: "e = Raise cls msg" by (cases e)
  with net Inl have "is_Exception cls" by (simp add: raises_only_Exception_def)
  with Inl e host show ?thesis
    by (simp add: dns_resolution_def try_except_caught)
next
  case (Inr ip)
  with host show ?thesis by (simp add: dns_resolution_def try_except_value)
qed

lemma http_check_outcome:
  assumes net: "raises_only_Exception (client_get (prepare_url target))"
  shows "http_check client_get elapsed_ms target =
           Inr (case client_get (prepare_url target) of
                  Inr r \<Rightarrow>
                    [''ok'' \<mapsto> VBool (status_code r < 400),
                     ''url'' \<mapsto> VStr (prepare_url target),
                     ''status_code'' \<mapsto> VInt (status_code r),
                     ''response_time_ms'' \<mapsto> VInt elapsed_ms,
                     ''final_url'' \<mapsto> VStr (url r),
                     ''redirect_chain'' \<mapsto> VList (map VInt (history r))]
                | Inl (Raise cls msg) \<Rightarrow>
                    [''ok'' \<mapsto> VBool False, ''url'' \<mapsto> VStr (prepare_url target),
                     ''error'' \<mapsto> VStr msg])"
proof (cases "client_get (prepare_url target)")
  case (Inl e)
  obtain cls msg where e: "e = Raise cls msg" by (cases e)
  with net Inl have "is_Exception cls" by (simp add: raises_only_Exception_def)
  with Inl e show ?thesis
    by (simp add: http_check_def Let_def try_except_caught)
next
  case (Inr r)
  then show ?thesis by (simp add: http_check_def Let_def try_except_value)
qed

lemma ping_host_outcome:
  assumes net: "raises_only_Exception (ping host 2)"
    and rnd: "\<And>q. raises_only_Exception (round_float q)"
    and host: "normalize_target target = Inr host"
  shows "ping_host ping round_float target =
           Inr (case ping host 2 of
                  Inl (Raise cls msg) \<Rightarrow>
                    [''ok'' \<mapsto> VBool False, ''host'' \<mapsto> VStr host, ''latency_ms'' \<mapsto> VNone,
                     ''error'' \<mapsto> VStr msg]
                | Inr rtt \<Rightarrow>
                    if rtt = VNone then
                      [''ok'' \<mapsto> VBool False, ''host'' \<mapsto> VStr host, ''latency_ms'' \<mapsto> VNone,
                       ''error'' \<mapsto> VStr ''timeout'']
                    else
                      (case round_ms round_float rtt of
                         Inr ms \<Rightarrow> [''ok'' \<mapsto> VBool True, ''host'' \<mapsto> VStr host, ''latency_ms'' \<mapsto> ms]
                       | Inl (Raise cls msg) \<Rightarrow>
                           [''ok'' \<mapsto> VBool False, ''host'' \<mapsto> VStr host, ''latency_ms'' \<mapsto> VNone,
                            ''error'' \<mapsto> VStr msg]))"
proof (cases "ping host 2")
  case (Inl e)
  obtain cls msg where e: "e = Raise cls msg" by (cases e)
  with net Inl have "is_Exception cls" by (simp add: raises_only_Exception_def)
  with Inl e host show ?thesis
    by (simp add: ping_host_def try_except_caught)
next
  case (Inr rtt)
  show ?thesis
  proof (cases "rtt = VNone")
    case True
    with Inr host show ?thesis by (simp add: ping_host_def try_except_value)
  next
    case False
    show ?thesis
    proof (cases "round_ms round_float rtt")
      case (Inl e)
      obtain cls msg where e: "e = Raise cls msg" by (cases e)
      have "raises_only_Exception (round_ms round_float rtt)"
        using rnd by (cases rtt) (simp_all add: round_ms_def raises_only_Exception_def)
      with Inl e have "is_Exception cls" by (simp add: raises_only_Exception_def)
      with Inl e Inr False host show ?thesis
        by (simp add: ping_host_def try_except_caught)
    next
      case (Inr ms)
      with \<open>ping host 2 = Inr rtt\<close> False host show ?thesis
        by (simp add: ping_host_def try_except_value)
    qed
  qed
qed

text \<open>
  What holds of the three probes. For every target string each of them returns an
  outcome and raises nothing, whatever the network call does, as long as what the
  call raises is of a class under \<open>Exception\<close>. When the network call raises, the
  outcome has a false flag \<open>ok\<close> and the exception's text as its \<open>error\<close>; when the
  ping returns \<open>None\<close>, the outcome has a false flag and the error \<open>timeout\<close>.
\<close>

lemma probes_return_outcomes:
  assumes dns_net: "\<forall>h. raises_only_Exception (gethostbyname h)"
    and http_net: "\<forall>u. raises_only_Exception (client_get u)"
    and ping_net: "\<forall>h secs. raises_only_Exception (ping h secs)"
    and rnd: "\<forall>q. raises_only_Exception (round_float q)"
  shows "\<exists>host d h p.
           normalize_target target = Inr host
         \<and> dns_resolution gethostbyname target = Inr d
         \<and> http_check client_get elapsed_ms target = Inr h
         \<and> ping_host ping round_float target = Inr p
         \<and> (\<forall>cls msg. gethostbyname host = Inl (Raise cls msg)
               \<longrightarrow> \<not> ok_flag d \<and> d ''error'' = Some (VStr msg))
         \<and> (\<forall>cls msg. client_get (prepare_url target) = Inl (Raise cls msg)
               \<longrightarrow> \<not> ok_flag h \<and> h ''error'' = Some (VStr msg))
         \<and> (\<forall>cls msg. ping host 2 = Inl (Raise cls msg)
               \<longrightarrow> \<not> ok_flag p \<and> p ''error'' = Some (VStr msg))
         \<and> (ping host 2 = Inr VNone
               \<longrightarrow> \<not> ok_flag p \<and> p ''error'' = Some (VStr ''timeout''))"
proof -
  obtain host where host: "normalize_target target = Inr host"
    using normalize_target_returns by blast
  note d = dns_resolution_outcome [OF dns_net [rule_format] host]
  note h = http_check_outcome [OF http_net [rule_format], where target = target and elapsed_ms = elapsed_ms]
  note p = ping_host_outcome [OF ping_net [rule_format] rnd [rule_format] host]
  show ?thesis
    apply (rule exI [of _ host])
    apply (simp only: d h p host)
    apply (simp add: ok_flag_def)
    done
qed

text \<open>
  Claim C2. Each probe converts every failure of its network call into an outcome
  with a false flag \<open>ok\<close> and an error text. The ping probe does not: a reply that is
  not \<open>None\<close> goes to the success branch, so when the library reports an error by
  returning \<open>False\<close> (an unresolvable host), the probe returns a true flag \<open>ok\<close>, a
  latency of 0 and no error.
\<close>

theorem ping_error_reply_reported_ok:
  "ping_host error_reply round_float ''no-such-host.invalid'' =
     Inr [''ok'' \<mapsto> VBool True, ''host'' \<mapsto> VStr ''no-such-host.invalid'', ''latency_ms'' \<mapsto> VInt 0]"
proof -
  have "normalize_target ''no-such-host.invalid'' = Inr ''no-such-host.invalid''"
    by (simp add: normalize_target_def startswith_def split1_def py_index_def)
  then show ?thesis
    by (simp add: ping_host_def error_reply_def round_ms_def try_except_value)
qed

section \<open>Properties of the analyzer\<close>

lemmas analyze_defs =
  analyze_dns_def analyze_ssl_def analyze_http_def analyze_ping_def analyze_geoip_def

lemma analyze_defined:
  "comparable_fields r \<Longrightarrow> \<exists>ins'. analyze c r ins = Inr ins'"
  by (cases c)
     (auto simp: analyze_defs Let_def comparable_fields_def failed_def get_ok_None
                 py_lt_def py_gt_def split: option.splits)

lemma analyze_issues:
  "analyze c r ins = Inr ins' \<Longrightarrow>
     root_cause_analysis ins' = root_cause_analysis ins @ (if failed r c then issues_of r c else [])"
  by (cases c)
     (auto simp: analyze_defs Let_def failed_def get_ok_None split: if_splits sum.splits)

lemma analyze_recommendations:
  "analyze c r ins = Inr ins' \<Longrightarrow>
     intelligent_recommendations ins' =
       intelligent_recommendations ins @ (if failed r c then recommendations_of c else [])"
  by (cases c)
     (auto simp: analyze_defs Let_def failed_def get_ok_None split: if_splits sum.splits)

lemma analyze_risk:
  "analyze c r ins = Inr ins' \<Longrightarrow>
     risk_assessment ins' =
       (if failed r c \<and> (c = DNS \<or> c = HTTP) then ''high''
        else if failed r c \<and> c = SSL \<and> risk_assessment ins = ''low'' then ''medium''
        else risk_assessment ins)"
  by (cases c)
     (auto simp: analyze_defs Let_def failed_def get_ok_None split: if_splits sum.splits)

lemma analyze_risk_rank:
  "analyze c r ins = Inr ins' \<Longrightarrow> risk_rank (risk_assessment ins) \<le> risk_rank (risk_assessment ins')"
  by (drule analyze_risk) (simp add: risk_rank_def)

lemma in_order_defined:
  "comparable_fields r \<Longrightarrow> \<exists>ins'. analyze_in_order cs r ins = Inr ins'"
proof (induction cs arbitrary: ins)
  case Nil
  show ?case by simp
next
  case (Cons c cs)
  from Cons.prems obtain ins1 where "analyze c r ins = Inr ins1"
    using analyze_defined by blast
  with Cons.IH [OF Cons.prems, of ins1] show ?case by simp
qed

lemma in_order_issues:
  "analyze_in_order cs r ins = Inr ins' \<Longrightarrow>
     root_cause_analysis ins' =
       root_cause_analysis ins @ concat (map (issues_of r) (filter (failed r) cs))"
proof (induction cs arbitrary: ins)
  case Nil
  then show ?case by simp
next
  case (Cons c cs)
  then obtain ins1 where s: "analyze c r ins = Inr ins1" and t: "analyze_in_order cs r ins1 = Inr ins'"
    by (auto split: sum.splits)
  from Cons.IH [OF t] analyze_issues [OF s] show ?case by simp
qed

lemma in_order_recommendations:
  "analyze_in_order cs r ins = Inr ins' \<Longrightarrow>
     intelligent_recommendations ins' =
       intelligent_recommendations ins @ concat (map recommendations_of (filter (failed r) cs))"
proof (induction cs arbitrary: ins)
  case Nil
  then show ?case by simp
next
  case (Cons c cs)
  then obtain ins1 where s: "analyze c r ins = Inr ins1" and t: "analyze_in_order cs r ins1 = Inr ins'"
    by (auto split: sum.splits)
  from Cons.IH [OF t] analyze_recommendations [OF s] show ?case by simp
qed

lemma in_order_keeps_high:
  "analyze_in_order cs r ins = Inr ins' \<Longrightarrow> risk_assessment ins = ''high'' \<Longrightarrow>
     risk_assessment ins' = ''high''"
proof (induction cs arbitrary: ins)
  case Nil
  then show ?case by simp
next
  case (Cons c cs)
  then obtain ins1 where s: "analyze c r ins = Inr ins1" and t: "analyze_in_order cs r ins1 = Inr ins'"
    by (auto split: sum.splits)
  from analyze_risk [OF s] Cons.prems(2) have "risk_assessment ins1 = ''high''" by simp
  with Cons.IH [OF t] show ?case by simp
qed

lemma in_order_high:
  "analyze_in_order cs r ins = Inr ins' \<Longrightarrow> c \<in> set cs \<Longrightarrow> failed r c \<Longrightarrow> c = DNS \<or> c = HTTP \<Longrightarrow>
     risk_assessment ins' = ''high''"
proof (induction cs arbitrary: ins)
  case Nil
  then show ?case by simp
next
  case (Cons d cs)
  then obtain ins1 where s: "analyze d r ins = Inr ins1" and t: "analyze_in_order cs r ins1 = Inr ins'"
    by (auto split: sum.splits)
  show ?case
  proof (cases "d = c")
    case True
    with analyze_risk [OF s] Cons.prems have "risk_assessment ins1 = ''high''" by auto
    with t show ?thesis by (rule in_order_keeps_high)
  next
    case False
    with Cons.prems have "c \<in> set cs" by simp
    from Cons.IH [OF t this Cons.prems(3,4)] show ?thesis .
  qed
qed

lemma summary_keeps:
  "root_cause_analysis (generate_ai_summary t ins) = root_cause_analysis ins"
  "intelligent_recommendations (generate_ai_summary t ins) = intelligent_recommendations ins"
  "risk_assessment (generate_ai_summary t ins) = risk_assessment ins"
  "predicted_issues (generate_ai_summary t ins) = predicted_issues ins"
  "performance_score (generate_ai_summary t ins) = performance_score ins"
  by (simp_all add: generate_ai_summary_def Let_def)

lemma fallback_insights_cases:
  "generate_fallback_insights r t = Inr res \<longleftrightarrow>
     (\<exists>ins. analyze_in_order check_order r initial_insights = Inr ins \<and> res = generate_ai_summary t ins)"
  by (auto simp: generate_fallback_insights_def split: sum.splits)

text \<open>
  Claim C3. For every diagnostic-results input in which the DNS outcome or the HTTP
  outcome has failed, the risk assessment that the analyzer returns is high, whatever
  the other outcomes are; and it is high as well when the five category blocks are
  run in any other order. The input is one on which the analyzer's comparisons are
  defined.
\<close>

theorem dns_or_http_failure_is_high_risk:
  assumes typed: "comparable_fields r"
    and down: "failed r DNS \<or> failed r HTTP"
  shows "(\<exists>ins. generate_fallback_insights r target = Inr ins \<and> risk_assessment ins = ''high'')
       \<and> (\<forall>order. mset order = mset check_order \<longrightarrow>
            (\<exists>ins. analyze_in_order order r initial_insights = Inr ins
                   \<and> risk_assessment ins = ''high''))"
proof -
  have any: "\<exists>ins. analyze_in_order order r initial_insights = Inr ins \<and> risk_assessment ins = ''high''"
    if "set order = set check_order" for order
  proof -
    obtain ins where ins: "analyze_in_order order r initial_insights = Inr ins"
      using in_order_defined [OF typed] by blast
    from down obtain c where c: "failed r c" "c = DNS \<or> c = HTTP" by blast
    with that have "c \<in> set order" by (auto simp: check_order_def)
    from in_order_high [OF ins this c] ins show ?thesis by blast
  qed
  from any [of check_order] have "\<exists>ins. generate_fallback_insights r target = Inr ins \<and> risk_assessment ins = ''high''"
    by (auto simp: fallback_insights_cases summary_keeps)
  moreover have "\<forall>order. mset order = mset check_order \<longrightarrow>
            (\<exists>ins. analyze_in_order order r initial_insights = Inr ins
                   \<and> risk_assessment ins = ''high'')"
    using any mset_eq_setD by blast
  ultimately show ?thesis by blast
qed


lemmas outcome_defs =
  outcome_set_def ok_outcome_def failed_outcome_def http_ok_def ping_ok_def ssl_ok_def

lemmas lookup_defs =
  failed_def ok_flag_def results_get_def py_get_def

lemmas run_defs =
  generate_fallback_insights_def check_order_def analyze_defs Let_def initial_insights_def
  py_lt_def py_gt_def

lemma ssl_http_down_facts:
  "comparable_fields (outcome_set ssl_http_down)"
  "failed (outcome_set ssl_http_down) HTTP"
  "failed (outcome_set ssl_http_down) SSL"
  "\<not> failed (outcome_set ssl_http_down) DNS"
  "\<not> failed (outcome_set ssl_http_down) Ping"
  "\<not> failed (outcome_set ssl_http_down) GeoIP"
  by (simp_all add: comparable_fields_def ssl_http_down_def outcome_defs lookup_defs)

theorem dns_or_http_failure_is_high_risk_witness:
  "comparable_fields (outcome_set ssl_http_down)
   \<and> failed (outcome_set ssl_http_down) HTTP
   \<and> (\<exists>ins. generate_fallback_insights (outcome_set ssl_http_down) ''example.com'' = Inr ins
             \<and> risk_assessment ins = ''high'')
   \<and> mset [GeoIP, HTTP, Ping, SSL, DNS] = mset check_order
   \<and> (\<exists>ins. analyze_in_order [GeoIP, HTTP, Ping, SSL, DNS] (outcome_set ssl_http_down)
               initial_insights = Inr ins
             \<and> risk_assessment ins = ''high'')"
proof -
  have a: "comparable_fields (outcome_set ssl_http_down)"
    by (rule ssl_http_down_facts)
  have b: "failed (outcome_set ssl_http_down) DNS \<or> failed (outcome_set ssl_http_down) HTTP"
    by (simp add: ssl_http_down_facts)
  have c: "mset [GeoIP, HTTP, Ping, SSL, DNS] = mset check_order"
    by (simp add: check_order_def)
  show ?thesis
    using a c ssl_http_down_facts(2)
      dns_or_http_failure_is_high_risk [OF a b, of "''example.com''"]
    by blast
qed

lemma geoip_down_facts:
  "comparable_fields (outcome_set geoip_down)"
  "failed (outcome_set geoip_down) GeoIP"
  "\<not> failed (outcome_set geoip_down) DNS"
  "\<not> failed (outcome_set geoip_down) SSL"
  "\<not> failed (outcome_set geoip_down) HTTP"
  "\<not> failed (outcome_set geoip_down) Ping"
  by (simp_all add: comparable_fields_def geoip_down_def outcome_defs lookup_defs)

text \<open>
  Claim C4, as stated, fails: with the GeoIP lookup as the only failed category, the
  risk assessment stays low.
\<close>

theorem geoip_failure_keeps_low_risk:
  "failed (outcome_set geoip_down) GeoIP
   \<and> risk_of (generate_fallback_insights (outcome_set geoip_down) ''example.com'') = Inr ''low''"
proof -
  have "risk_of (generate_fallback_insights (outcome_set geoip_down) ''example.com'') = Inr ''low''"
    by (simp add: risk_of_def run_defs geoip_down_def outcome_defs
          results_get_def py_get_def generate_ai_summary_def)
  with geoip_down_facts(2) show ?thesis by simp
qed


lemma in_order_risk_rank:
  "analyze_in_order cs r ins = Inr ins' \<Longrightarrow>
     risk_rank (risk_assessment ins) \<le> risk_rank (risk_assessment ins')"
proof (induction cs arbitrary: ins)
  case Nil
  then show ?case by simp
next
  case (Cons c cs)
  then obtain ins1 where s: "analyze c r ins = Inr ins1" and t: "analyze_in_order cs r ins1 = Inr ins'"
    by (auto split: sum.splits)
  from analyze_risk_rank [OF s] Cons.IH [OF t] show ?case by simp
qed

lemma check_order_steps:
  assumes "analyze_in_order check_order r ins0 = Inr ins"
  obtains i1 i2 i3 i4 where
    "analyze DNS r ins0 = Inr i1" "analyze SSL r i1 = Inr i2" "analyze HTTP r i2 = Inr i3"
    "analyze Ping r i3 = Inr i4" "analyze GeoIP r i4 = Inr ins"
proof -
  from assms obtain i1 where 1: "analyze DNS r ins0 = Inr i1"
    and r1: "analyze_in_order [SSL, HTTP, Ping, GeoIP] r i1 = Inr ins"
    unfolding check_order_def by (simp split: sum.splits)
  from r1 obtain i2 where 2: "analyze SSL r i1 = Inr i2"
    and r2: "analyze_in_order [HTTP, Ping, GeoIP] r i2 = Inr ins"
    by (auto split: sum.splits)
  from r2 obtain i3 where 3: "analyze HTTP r i2 = Inr i3"
    and r3: "analyze_in_order [Ping, GeoIP] r i3 = Inr ins"
    by (auto split: sum.splits)
  from r3 obtain i4 where 4: "analyze Ping r i3 = Inr i4"
    and r4: "analyze_in_order [GeoIP] r i4 = Inr ins"
    by (auto split: sum.splits)
  from r4 have 5: "analyze GeoIP r i4 = Inr ins"
    by (auto split: sum.splits)
  from 1 2 3 4 5 show thesis by (rule that)
qed

lemma final_risk:
  assumes "analyze_in_order check_order r initial_insights = Inr ins"
  shows "risk_assessment ins =
           (if failed r DNS \<or> failed r HTTP then ''high''
            else if failed r SSL then ''medium'' else ''low'')"
proof -
  from assms obtain i1 i2 i3 i4 where
    s1: "analyze DNS r initial_insights = Inr i1" and s2: "analyze SSL r i1 = Inr i2"
    and s3: "analyze HTTP r i2 = Inr i3" and s4: "analyze Ping r i3 = Inr i4"
    and s5: "analyze GeoIP r i4 = Inr ins"
    by (rule check_order_steps)
  have "risk_assessment i1 = (if failed r DNS then ''high'' else ''low'')"
    using analyze_risk [OF s1] by (simp add: initial_insights_def)
  moreover have "risk_assessment i2 =
      (if failed r SSL \<and> risk_assessment i1 = ''low'' then ''medium'' else risk_assessment i1)"
    using analyze_risk [OF s2] by simp
  moreover have "risk_assessment i3 = (if failed r HTTP then ''high'' else risk_assessment i2)"
    using analyze_risk [OF s3] by simp
  moreover have "risk_assessment i4 = risk_assessment i3"
    using analyze_risk [OF s4] by simp
  moreover have "risk_assessment ins = risk_assessment i4"
    using analyze_risk [OF s5] by simp
  ultimately show ?thesis by simp
qed

text \<open>
  Claim C4, amended. For every diagnostic-results input in which the SSL outcome has
  failed, the risk assessment that the analyzer returns is medium or high. Running
  any sequence of category blocks never lowers the risk: not from high, and not from
  medium to low. The GeoIP block leaves the risk as it is.
\<close>

theorem ssl_failure_raises_risk_and_risk_never_drops:
  "(comparable_fields r \<and> failed r SSL \<longrightarrow>
      (\<exists>ins. generate_fallback_insights r target = Inr ins
             \<and> (risk_assessment ins = ''medium'' \<or> risk_assessment ins = ''high'')))
   \<and> (\<forall>cs ins ins'. analyze_in_order cs r ins = Inr ins' \<longrightarrow>
          risk_rank (risk_assessment ins) \<le> risk_rank (risk_assessment ins'))
   \<and> (\<forall>ins. risk_assessment (analyze_geoip r ins) = risk_assessment ins)"
proof -
  have "\<exists>ins. generate_fallback_insights r target = Inr ins
             \<and> (risk_assessment ins = ''medium'' \<or> risk_assessment ins = ''high'')"
    if typed: "comparable_fields r" and ssl: "failed r SSL"
  proof -
    obtain ins where ins: "analyze_in_order check_order r initial_insights = Inr ins"
      using in_order_defined [OF typed] by blast
    from final_risk [OF ins] ssl
    have "risk_assessment ins = ''medium'' \<or> risk_assessment ins = ''high''" by simp
    with ins show ?thesis by (auto simp: fallback_insights_cases summary_keeps)
  qed
  moreover have "risk_assessment (analyze_geoip r ins) = risk_assessment ins" for ins
    by (simp add: analyze_geoip_def Let_def)
  ultimately show ?thesis using in_order_risk_rank by blast
qed

lemma ssl_down_facts:
  "comparable_fields (outcome_set ssl_down)"
  "failed (outcome_set ssl_down) SSL"
  "\<not> failed (outcome_set ssl_down) DNS"
  "\<not> failed (outcome_set ssl_down) HTTP"
  "\<not> failed (outcome_set ssl_down) Ping"
  "\<not> failed (outcome_set ssl_down) GeoIP"
  by (simp_all add: comparable_fields_def ssl_down_def outcome_defs lookup_defs)

theorem ssl_failure_raises_risk_and_risk_never_drops_witness:
  "comparable_fields (outcome_set ssl_down) \<and> failed (outcome_set ssl_down) SSL
   \<and> (\<exists>ins. generate_fallback_insights (outcome_set ssl_down) ''example.com'' = Inr ins
             \<and> (risk_assessment ins = ''medium'' \<or> risk_assessment ins = ''high''))
   \<and> (\<exists>ins'. analyze_in_order [Ping, GeoIP] (outcome_set ssl_down)
                 (initial_insights\<lparr>risk_assessment := ''medium''\<rparr>) = Inr ins'
             \<and> risk_rank (risk_assessment (initial_insights\<lparr>risk_assessment := ''medium''\<rparr>))
                 \<le> risk_rank (risk_assessment ins'))"
proof -
  let ?r = "outcome_set ssl_down"
  let ?start = "initial_insights\<lparr>risk_assessment := ''medium''\<rparr>"
  note claim = ssl_failure_raises_risk_and_risk_never_drops [of ?r "''example.com''"]
  obtain ins' where run: "analyze_in_order [Ping, GeoIP] ?r ?start = Inr ins'"
    using in_order_defined [OF ssl_down_facts(1)] by blast
  from claim run have "risk_rank (risk_assessment ?start) \<le> risk_rank (risk_assessment ins')"
    by blast
  with run claim ssl_down_facts(1,2) show ?thesis by blast
qed

text \<open>
  With every check successful and a certificate of \<open>days\<close> days left, the analyzer
  predicts the expiration when \<open>days\<close> is below 30 and is not 0: the condition of
  the source tests the truth value of \<open>days_left\<close> first, and 0 is false.
\<close>

lemma expiry_warning_rule:
  "predicted_types (generate_fallback_insights (outcome_set (all_ok days)) target) =
     Inr (if days \<noteq> 0 \<and> days < 30 then [''ssl_expiration''] else [])"
  by (simp add: predicted_types_def run_defs all_ok_def outcome_defs
        results_get_def py_get_def generate_ai_summary_def ssl_expiration_def)

text \<open>
  Claim C5. An \<open>ssl_expiration\<close> predicted issue is emitted if and only if the SSL
  outcome has succeeded and has fewer than 30 days left, 0 days included. The analyzer
  does not do so: for a successful SSL outcome with 0 days left it predicts nothing.
\<close>

theorem no_expiry_warning_at_zero_days:
  "ok_flag (all_ok 0 SSL) \<and> all_ok 0 SSL ''days_left'' = Some (VInt 0)
   \<and> predicted_types (generate_fallback_insights (outcome_set (all_ok 0)) ''example.com'') = Inr []"
proof -
  have "predicted_types (generate_fallback_insights (outcome_set (all_ok 0)) ''example.com'') = Inr []"
    by (simp add: expiry_warning_rule)
  then show ?thesis by (simp add: all_ok_def ssl_ok_def ok_flag_def)
qed

text \<open>
  Claim C6. For the outcome set with DNS successful, SSL failed with the error
  \<open>expired\<close>, HTTP successful with status 200 and 150 ms, ping successful with 40 ms
  and GeoIP successful, the health score is 80, the risk assessment is medium, there
  is exactly one issue, of the SSL (TLS) category and of medium severity, and exactly
  one recommendation, of high priority and with the action \<open>Renew SSL certificate\<close>.
\<close>

theorem fixed_outcome_set_round_trip:
  "calculate_health_score (outcome_set ssl_down) = Inr 80
   \<and> (\<exists>ins. generate_fallback_insights (outcome_set ssl_down) target = Inr ins
        \<and> risk_assessment ins = ''medium''
        \<and> root_cause_analysis ins =
            [\<lparr>category = ''SSL'', severity = ''medium'', issue = ''SSL certificate problem'',
              impact = ''Security warnings for users'', technical_details = VStr ''expired''\<rparr>]
        \<and> intelligent_recommendations ins =
            [\<lparr>priority = ''high'', action = ''Renew SSL certificate'',
              details = ''Certificate may be expired or improperly configured'',
              estimated_fix_time = ''10-30 minutes''\<rparr>])"
proof -
  have score: "calculate_health_score (outcome_set ssl_down) = Inr 80"
    unfolding score_of_outcome_set
    by (simp add: ssl_down_def ok_outcome_def failed_outcome_def http_ok_def ping_ok_def ok_flag_def)
  obtain ins where ins: "analyze_in_order check_order (outcome_set ssl_down) initial_insights = Inr ins"
    using in_order_defined [OF ssl_down_facts(1)] by blast
  have "risk_assessment ins = ''medium''"
    using final_risk [OF ins] by (simp add: ssl_down_facts)
  moreover have "root_cause_analysis ins = [ssl_issue (results_get (outcome_set ssl_down) ''ssl'')]"
    using in_order_issues [OF ins]
    by (simp add: check_order_def ssl_down_facts initial_insights_def)
  moreover have "ssl_issue (results_get (outcome_set ssl_down) ''ssl'') =
            \<lparr>category = ''SSL'', severity = ''medium'', issue = ''SSL certificate problem'',
              impact = ''Security warnings for users'', technical_details = VStr ''expired''\<rparr>"
    by (simp add: ssl_issue_def ssl_down_def outcome_defs results_get_def py_get_def)
  moreover have "intelligent_recommendations ins =
            [\<lparr>priority = ''high'', action = ''Renew SSL certificate'',
              details = ''Certificate may be expired or improperly configured'',
              estimated_fix_time = ''10-30 minutes''\<rparr>]"
    using in_order_recommendations [OF ins]
    by (simp add: check_order_def ssl_down_facts initial_insights_def ssl_recommendation_def)
  ultimately show ?thesis
    using score ins by (simp add: fallback_insights_cases summary_keeps)
qed

text \<open>
  Claim C8. The issues and the recommendations that the analyzer returns are those
  of the failed categories in the order of the checks, DNS, SSL, HTTP, ping: the
  recommendations come in the order of the issues that produced them, and are not
  sorted by priority.
\<close>

theorem issues_and_recommendations_in_check_order:
  assumes typed: "comparable_fields r"
  shows "\<exists>ins. generate_fallback_insights r target = Inr ins
           \<and> root_cause_analysis ins =
               concat (map (issues_of r) (filter (failed r) [DNS, SSL, HTTP, Ping]))
           \<and> intelligent_recommendations ins =
               concat (map recommendations_of (filter (failed r) [DNS, SSL, HTTP, Ping]))"
proof -
  obtain ins where ins: "analyze_in_order check_order r initial_insights = Inr ins"
    using in_order_defined [OF typed] by blast
  have "root_cause_analysis ins = concat (map (issues_of r) (filter (failed r) [DNS, SSL, HTTP, Ping]))"
    using in_order_issues [OF ins] by (simp add: check_order_def initial_insights_def)
  moreover have "intelligent_recommendations ins =
      concat (map recommendations_of (filter (failed r) [DNS, SSL, HTTP, Ping]))"
    using in_order_recommendations [OF ins] by (simp add: check_order_def initial_insights_def)
  ultimately show ?thesis
    using ins by (simp add: fallback_insights_cases summary_keeps)
qed

theorem issues_and_recommendations_in_check_order_witness:
  "comparable_fields (outcome_set ssl_http_down)
   \<and> (\<exists>ins. generate_fallback_insights (outcome_set ssl_http_down) ''example.com'' = Inr ins
        \<and> map category (root_cause_analysis ins) = [''SSL'', ''HTTP'']
        \<and> map priority (intelligent_recommendations ins) = [''high'', ''critical'']
        \<and> map action (intelligent_recommendations ins)
             = [''Renew SSL certificate'', ''Check web server status''])"
proof -
  have a: "comparable_fields (outcome_set ssl_http_down)"
    by (rule ssl_http_down_facts)
  show ?thesis
    using a issues_and_recommendations_in_check_order [OF a, of "''example.com''"]
    by (auto simp: ssl_http_down_facts ssl_issue_def http_issue_def
          ssl_recommendation_def http_recommendation_def)
qed

text \<open>
  Claim C9. For every client, configured with an API key or not, every diagnostic
  results and every target, \<open>get_ai_insights\<close> returns what the local analyzer
  \<open>_generate_fallback_insights\<close> returns on the same arguments.
\<close>

theorem get_ai_insights_is_fallback:
  "get_ai_insights portia_client diagnostic_results target =
     generate_fallback_insights diagnostic_results target"
  by (simp add: get_ai_insights_def generate_ai_insights_def)

theorem get_ai_insights_is_fallback_witness:
  "is_available configured_client \<and> \<not> is_available unconfigured_client
   \<and> get_ai_insights configured_client (outcome_set ssl_down) ''example.com''
       = generate_fallback_insights (outcome_set ssl_down) ''example.com''
   \<and> get_ai_insights unconfigured_client (outcome_set ssl_down) ''example.com''
       = generate_fallback_insights (outcome_set ssl_down) ''example.com''"
proof -
  have "is_available configured_client" "\<not> is_available unconfigured_client"
    by (simp_all add: is_available_def configured_client_def unconfigured_client_def
          strip_def strip_leading.simps whitespace_codes_def startswith_def)
  then show ?thesis
    using get_ai_insights_is_fallback [of configured_client "outcome_set ssl_down" "''example.com''"]
      get_ai_insights_is_fallback [of unconfigured_client "outcome_set ssl_down" "''example.com''"]
    by simp
qed


lemma str_int_100: "str_int 100 = ''100''"
  by (simp add: str_int_def str_nat.simps digit_char_def)

lemma analyze_score:
  "analyze c r ins = Inr ins' \<Longrightarrow> \<not> failed r c \<Longrightarrow>
     performance_score ins' =
       performance_score ins + (case c of DNS \<Rightarrow> 25 | SSL \<Rightarrow> 25 | HTTP \<Rightarrow> 25 | Ping \<Rightarrow> 15 | GeoIP \<Rightarrow> 10)"
  by (cases c)
     (auto simp: analyze_defs Let_def failed_def get_ok_None split: if_splits sum.splits)

lemma all_ok_score:
  assumes run: "analyze_in_order check_order r initial_insights = Inr ins"
    and ok: "\<forall>c. \<not> failed r c"
  shows "performance_score ins = 100"
proof -
  from run obtain i1 i2 i3 i4 where
    s1: "analyze DNS r initial_insights = Inr i1" and s2: "analyze SSL r i1 = Inr i2"
    and s3: "analyze HTTP r i2 = Inr i3" and s4: "analyze Ping r i3 = Inr i4"
    and s5: "analyze GeoIP r i4 = Inr ins"
    by (rule check_order_steps)
  from analyze_score [OF s1] analyze_score [OF s2] analyze_score [OF s3]
    analyze_score [OF s4] analyze_score [OF s5] ok
  show ?thesis by (simp add: initial_insights_def)
qed

lemma not_failed_present:
  "\<not> failed r c \<Longrightarrow> \<exists>d. r (key c) = Some d \<and> ok_flag d"
  by (cases "r (key c)") (simp_all add: failed_def results_get_def ok_flag_def)

lemma summary_and_fixes_all_ok:
  assumes ok: "\<forall>c. \<not> failed r c"
  shows "generate_summary_and_fixes r domain ai =
           Inr (case ai of
                  None \<Rightarrow> (passed_summary domain, [])
                | Some ins \<Rightarrow>
                    (if ai_summary ins \<noteq> [] then ai_summary ins else passed_summary domain,
                     map ai_fix (intelligent_recommendations ins)))"
proof -
  from ok not_failed_present [of r DNS] obtain dns where "r ''dns'' = Some dns" "ok_flag dns" by auto
  moreover from ok not_failed_present [of r HTTP] obtain http where "r ''http'' = Some http" "ok_flag http" by auto
  moreover from ok not_failed_present [of r SSL] obtain ssl where "r ''ssl'' = Some ssl" "ok_flag ssl" by auto
  moreover from ok not_failed_present [of r Ping] obtain ping where "r ''ping'' = Some ping" "ok_flag ping" by auto
  moreover from ok not_failed_present [of r GeoIP] obtain geoip where "r ''geoip'' = Some geoip" "ok_flag geoip" by auto
  ultimately show ?thesis
    by (simp add: generate_summary_and_fixes_def py_getitem_def check_result_def get_ok_False
          Let_def split: option.splits)
qed

text \<open>
  Claim C7. For every outcome set in which all five categories have succeeded (and on
  which the analyzer's comparisons are defined), the insights have no issue, the risk
  assessment low and no recommendation; the list of fix suggestions is empty; and the
  summary says that the target is healthy: it is the analyzer's summary when the
  insights are passed on, as \<open>run_diagnostics\<close> does, and the message that all
  diagnostics passed when there are no insights.
\<close>

theorem all_ok_is_healthy:
  assumes ok: "\<forall>c. \<not> failed r c"
    and typed: "comparable_fields r"
  shows "\<exists>ins. get_ai_insights portia_client r domain = Inr ins
           \<and> root_cause_analysis ins = []
           \<and> risk_assessment ins = ''low''
           \<and> intelligent_recommendations ins = []
           \<and> ai_summary ins =
               ai_prefix @ '' AI Analysis: '' @ domain
               @ '' appears healthy with a performance score of 100/100. No critical issues detected.''
           \<and> generate_summary_and_fixes r domain (Some ins) = Inr (ai_summary ins, [])
           \<and> generate_summary_and_fixes r domain None = Inr (passed_summary domain, [])"
proof -
  obtain ins where ins: "analyze_in_order check_order r initial_insights = Inr ins"
    using in_order_defined [OF typed] by blast
  let ?res = "generate_ai_summary domain ins"
  have run: "get_ai_insights portia_client r domain = Inr ?res"
    using ins by (simp add: get_ai_insights_def generate_ai_insights_def fallback_insights_cases)
  have no_issue: "root_cause_analysis ins = []"
    using in_order_issues [OF ins] ok by (simp add: initial_insights_def)
  have no_rec: "intelligent_recommendations ins = []"
    using in_order_recommendations [OF ins] ok by (simp add: initial_insights_def)
  have low: "risk_assessment ins = ''low''"
    using final_risk [OF ins] ok by simp
  have healthy: "ai_summary ?res =
      ai_prefix @ '' AI Analysis: '' @ domain
      @ '' appears healthy with a performance score of 100/100. No critical issues detected.''"
    using no_issue all_ok_score [OF ins ok]
    by (simp add: generate_ai_summary_def str_int_100)
  then have nonempty: "ai_summary ?res \<noteq> []"
    by (simp add: ai_prefix_def)
  have with_ins: "generate_summary_and_fixes r domain (Some ?res) = Inr (ai_summary ?res, [])"
    using nonempty no_rec by (simp add: summary_and_fixes_all_ok [OF ok] summary_keeps)
  have without: "generate_summary_and_fixes r domain None = Inr (passed_summary domain, [])"
    by (simp add: summary_and_fixes_all_ok [OF ok])
  from run no_issue no_rec low healthy with_ins without show ?thesis
    by (simp add: summary_keeps)
qed

lemma all_ok_facts:
  "comparable_fields (outcome_set (all_ok 90))"
  "\<forall>c. \<not> failed (outcome_set (all_ok 90)) c"
proof -
  show "comparable_fields (outcome_set (all_ok 90))"
    by (simp add: comparable_fields_def all_ok_def outcome_defs lookup_defs)
  have "\<not> failed (outcome_set (all_ok 90)) c" for c
    by (cases c) (simp_all add: all_ok_def outcome_defs lookup_defs)
  then show "\<forall>c. \<not> failed (outcome_set (all_ok 90)) c" by blast
qed

theorem all_ok_is_healthy_witness:
  "(\<forall>c. \<not> failed (outcome_set (all_ok 90)) c) \<and> comparable_fields (outcome_set (all_ok 90))
   \<and> (\<exists>ins. get_ai_insights configured_client (outcome_set (all_ok 90)) ''example.com'' = Inr ins
           \<and> root_cause_analysis ins = []
           \<and> risk_assessment ins = ''low''
           \<and> intelligent_recommendations ins = []
           \<and> ai_summary ins =
               ai_prefix @ '' AI Analysis: '' @ ''example.com''
               @ '' appears healthy with a performance score of 100/100. No critical issues detected.''
           \<and> generate_summary_and_fixes (outcome_set (all_ok 90)) ''example.com'' (Some ins)
               = Inr (ai_summary ins, [])
           \<and> generate_summary_and_fixes (outcome_set (all_ok 90)) ''example.com'' None
               = Inr (passed_summary ''example.com'', []))"
  using all_ok_facts
    all_ok_is_healthy [OF all_ok_facts(2) all_ok_facts(1), of configured_client "''example.com''"]
  by blast


section \<open>The inputs on which the analyzer returns\<close>

lemma analyze_ssl_returns:
  "analyze SSL r ins = Inr ins' \<Longrightarrow>
     failed r SSL \<or> \<not> truthy (py_get (results_get r ''ssl'') ''days_left'' VNone)
       \<or> num_of (py_get (results_get r ''ssl'') ''days_left'' VNone) \<noteq> None"
  by (auto simp: analyze_ssl_def Let_def failed_def get_ok_None py_lt_def
           split: if_splits option.splits)

lemma analyze_http_returns:
  "analyze HTTP r ins = Inr ins' \<Longrightarrow>
     failed r HTTP \<or> num_of (py_get (results_get r ''http'') ''response_time_ms'' (VInt 0)) \<noteq> None"
  by (auto simp: analyze_http_def Let_def failed_def get_ok_None py_gt_def
           split: if_splits option.splits)

lemma analyze_ping_returns:
  "analyze Ping r ins = Inr ins' \<Longrightarrow>
     failed r Ping \<or> num_of (py_get (results_get r ''ping'') ''latency_ms'' (VInt 0)) \<noteq> None"
  by (auto simp: analyze_ping_def Let_def failed_def get_ok_None py_gt_def
           split: if_splits option.splits)

text \<open>
  The analyzer returns insights exactly on the inputs whose compared fields are
  numbers; on any other input a comparison raises \<open>TypeError\<close>.
\<close>

lemma fallback_insights_defined_iff:
  "(\<exists>ins. generate_fallback_insights r target = Inr ins) \<longleftrightarrow> comparable_fields r"
proof
  assume "\<exists>ins. generate_fallback_insights r target = Inr ins"
  then obtain ins where "analyze_in_order check_order r initial_insights = Inr ins"
    by (auto simp: fallback_insights_cases)
  then obtain i1 i2 i3 i4 where
    "analyze SSL r i1 = Inr i2" "analyze HTTP r i2 = Inr i3" "analyze Ping r i3 = Inr i4"
    by (rule check_order_steps)
  then show "comparable_fields r"
    unfolding comparable_fields_def
    using analyze_ssl_returns analyze_http_returns analyze_ping_returns by blast
next
  assume "comparable_fields r"
  then obtain ins where "analyze_in_order check_order r initial_insights = Inr ins"
    using in_order_defined by blast
  then show "\<exists>ins. generate_fallback_insights r target = Inr ins"
    by (simp add: fallback_insights_cases)
qed


end
